theory Spec2Isabelle
  imports Main "HOL-Library.Sublist" "HOL-Library.Word"
begin

section \<open>JavaScript values, promises and strings\<close>

text \<open>
  The values a JavaScript \<^verbatim>\<open>catch\<close> clause can receive. \<open>JError m\<close> is an
  instance of \<^verbatim>\<open>Error\<close> whose \<^verbatim>\<open>message\<close> is \<open>m\<close>; every other
  constructor is a value for which \<^verbatim>\<open>instanceof Error\<close> is false (a plain object
  stays a non-Error even when it has a \<^verbatim>\<open>message\<close> field).
\<close>

datatype js_value =
    JUndefined
  | JNull
  | JString string
  | JNumber int
  | JError string
  | JObject "(string \<times> js_value) list"

fun instanceof_Error :: "js_value \<Rightarrow> bool" where
  "instanceof_Error (JError m) = True"
| "instanceof_Error v = False"

text \<open>
  \<^verbatim>\<open>error.message\<close>. The adapter reads it in the branch where the value is an
  instance of \<^verbatim>\<open>Error\<close>, and nowhere else; the second equation only makes the
  function total.
\<close>

fun message :: "js_value \<Rightarrow> string" where
  "message (JError m) = m"
| "message v = ''undefined''"

text \<open>
  How an awaited promise ends: it is fulfilled with a value, rejected with a thrown
  value, or it never settles (the transport has no timeout).
\<close>

datatype 'a promise = Fulfilled 'a | Rejected js_value | Pending

text \<open>
  \<^verbatim>\<open>s.split(sep)\<close> for a one-character separator: the pieces between the
  separators, in order; a string without the separator is its own single piece.
\<close>

fun split :: "string \<Rightarrow> char \<Rightarrow> string list" where
  "split [] sep = [[]]"
| "split (c # cs) sep =
     (if c = sep then [] # split cs sep
      else (case split cs sep of
              [] \<Rightarrow> [[c]]
            | w # ws \<Rightarrow> (c # w) # ws))"

text \<open>\<^verbatim>\<open>xs[i]\<close>: reading an array past its end gives \<^verbatim>\<open>undefined\<close>.\<close>

definition index :: "'a list \<Rightarrow> nat \<Rightarrow> 'a option" where
  "index xs i = (if i < length xs then Some (xs ! i) else None)"

text \<open>A value inside a template literal: \<^verbatim>\<open>undefined\<close> prints as its name.\<close>

fun template :: "string option \<Rightarrow> string" where
  "template None = ''undefined''"
| "template (Some s) = s"

section \<open>The data model\<close>

text \<open>
  Modelled from the spec: the declaration of \<^verbatim>\<open>UploadedFile\<close> (in
  \<^verbatim>\<open>types.ts\<close>) is not among the sources. The specification's data model gives it
  three strings: the data, the media type and the name; the field names are the ones
  \<^verbatim>\<open>App.tsx\<close> builds it with and \<^verbatim>\<open>geminiService.ts\<close> reads.
\<close>

record UploadedFile =
  base64 :: string
  mimeType :: string
  name :: string

text \<open>
  The types of the remote service's client library, as far as the adapter touches them.
  The adapter reads \<^verbatim>\<open>candidates\<close>, \<^verbatim>\<open>content\<close> and \<^verbatim>\<open>parts\<close>
  through \<^verbatim>\<open>?.\<close> and tests \<^verbatim>\<open>inlineData\<close> for presence, so each of them may
  be absent; so may the two fields of the inline data, which the library declares
  optional. \<open>None\<close> is \<^verbatim>\<open>undefined\<close>.
\<close>

datatype Blob = Blob (blob_data: "string option") (blob_mimeType: "string option")

datatype Part = Part (inlineData: "Blob option") (part_text: "string option")

datatype Content = Content (parts: "Part list option")

datatype Candidate = Candidate (content: "Content option")

datatype GenerateContentResponse =
  GenerateContentResponse (candidates: "Candidate list option")

datatype Modality = MODALITY_UNSPECIFIED | TEXT | IMAGE | AUDIO

record GenerateContentConfig =
  responseModalities :: "Modality list"

record GenerateContentParameters =
  model :: string
  contents :: Content
  config :: GenerateContentConfig

text \<open>
  The remote call \<^verbatim>\<open>ai.models.generateContent\<close>: what the service answers to a
  request. It is a parameter of everything below.
\<close>

type_synonym generateContent = "GenerateContentParameters \<Rightarrow> GenerateContentResponse promise"

section \<open>The edit request adapter (\<^verbatim>\<open>services/geminiService.ts\<close>)\<close>

text \<open>\<^verbatim>\<open>const base64Data = image.base64.split(',')[1];\<close>\<close>

definition base64Data :: "UploadedFile \<Rightarrow> string option" where
  "base64Data img = index (split (base64 img) CHR '','') 1"

text \<open>The argument of \<^verbatim>\<open>ai.models.generateContent\<close>.\<close>

definition request :: "UploadedFile \<Rightarrow> string \<Rightarrow> GenerateContentParameters" where
  "request img prompt =
     \<lparr> model = ''gemini-2.5-flash-image'',
       contents = Content (Some
         [ Part (Some (Blob (base64Data img) (Some (mimeType img)))) None,
           Part None (Some prompt) ]),
       config = \<lparr> responseModalities = [IMAGE] \<rparr> \<rparr>"

text \<open>\<^verbatim>\<open>response.candidates?.[0]?.content?.parts ?? []\<close>\<close>

definition responseParts :: "GenerateContentResponse \<Rightarrow> Part list" where
  "responseParts response =
     (case candidates response of
        None \<Rightarrow> []
      | Some [] \<Rightarrow> []
      | Some (c # cs) \<Rightarrow>
          (case content c of
             None \<Rightarrow> []
           | Some ct \<Rightarrow> (case parts ct of None \<Rightarrow> [] | Some ps \<Rightarrow> ps)))"

text \<open>\<^verbatim>\<open>`data:${newMimeType};base64,${newBase64Data}`\<close>\<close>

definition dataUrl :: "Blob \<Rightarrow> string" where
  "dataUrl b = ''data:'' @ template (blob_mimeType b) @ '';base64,'' @ template (blob_data b)"

text \<open>
  The \<^verbatim>\<open>for (const part of ...)\<close> loop: it returns from the function at the
  first part whose \<^verbatim>\<open>inlineData\<close> is truthy (an object always is), and falls
  through, \<open>None\<close>, when no part has one.
\<close>

fun findImage :: "Part list \<Rightarrow> string option" where
  "findImage [] = None"
| "findImage (part # rest) =
     (case inlineData part of
        Some b \<Rightarrow> Some (dataUrl b)
      | None \<Rightarrow> findImage rest)"

text \<open>
  The \<^verbatim>\<open>try\<close> block. It issues the one remote call; the second component is how
  the block ends: \<open>Fulfilled\<close> for its \<^verbatim>\<open>return\<close>, \<open>Rejected\<close> for a value thrown
  in it (the awaited call's rejection, or the block's own \<^verbatim>\<open>throw\<close>) and \<open>Pending\<close>
  when the awaited call never settles. The first component lists the requests sent.
\<close>

definition editImageWithGemini_try ::
  "generateContent \<Rightarrow> UploadedFile \<Rightarrow> string \<Rightarrow> GenerateContentParameters list \<times> string promise"
where
  "editImageWithGemini_try gc img prompt =
     ([request img prompt],
      (case gc (request img prompt) of
         Pending \<Rightarrow> Pending
       | Rejected e \<Rightarrow> Rejected e
       | Fulfilled response \<Rightarrow>
           (case findImage (responseParts response) of
              Some url \<Rightarrow> Fulfilled url
            | None \<Rightarrow> Rejected (JError ''No image was generated in the API response.''))))"

text \<open>The \<^verbatim>\<open>catch (error)\<close> block: the value the returned promise rejects with.\<close>

definition editImageWithGemini_catch :: "js_value \<Rightarrow> js_value" where
  "editImageWithGemini_catch err =
     (if instanceof_Error err
      then JString (''Failed to generate image: '' @ message err)
      else JString ''An unknown error occurred while generating the image.'')"

definition editImageWithGemini ::
  "generateContent \<Rightarrow> UploadedFile \<Rightarrow> string \<Rightarrow> GenerateContentParameters list \<times> string promise"
where
  "editImageWithGemini gc img prompt =
     (case editImageWithGemini_try gc img prompt of
        (sent, Rejected err) \<Rightarrow> (sent, Rejected (editImageWithGemini_catch err))
      | (sent, Fulfilled url) \<Rightarrow> (sent, Fulfilled url)
      | (sent, Pending) \<Rightarrow> (sent, Pending))"

section \<open>The application state (\<^verbatim>\<open>App.tsx\<close>)\<close>

text \<open>
  The five \<^verbatim>\<open>useState\<close> cells of \<^verbatim>\<open>App\<close>. The cell \<open>error\<close> is declared
  \<^verbatim>\<open>string | null\<close>, but \<^verbatim>\<open>setError(e as string)\<close> stores the caught value
  unchecked (the cast is erased at run time), so the model keeps the run-time value.
\<close>

record AppState =
  originalImage :: "UploadedFile option"
  editedImage :: "string option"
  prompt :: string
  isLoading :: bool
  error :: "js_value option"

text \<open>
  The part of \<^verbatim>\<open>handleSubmit\<close> after the \<^verbatim>\<open>await\<close>: the rest of the
  \<^verbatim>\<open>try\<close>, the \<^verbatim>\<open>catch\<close> and the \<^verbatim>\<open>finally\<close>. A promise that never
  settles never resumes the handler.
\<close>

definition handleSubmit_resume :: "string promise \<Rightarrow> AppState \<Rightarrow> AppState" where
  "handleSubmit_resume p st =
     (case p of
        Fulfilled result \<Rightarrow> st\<lparr>editedImage := Some result\<rparr>\<lparr>isLoading := False\<rparr>
      | Rejected e \<Rightarrow> st\<lparr>error := Some e\<rparr>\<lparr>isLoading := False\<rparr>
      | Pending \<Rightarrow> st)"

text \<open>
  \<^verbatim>\<open>handleSubmit\<close>: the requests it caused and the state it leaves.
  \<^verbatim>\<open>!originalImage\<close> holds for \<^verbatim>\<open>null\<close> only and \<^verbatim>\<open>!prompt\<close> for the
  empty string only.
\<close>

definition handleSubmit :: "generateContent \<Rightarrow> AppState \<Rightarrow> GenerateContentParameters list \<times> AppState" where
  "handleSubmit gc st =
     (case originalImage st of
        None \<Rightarrow> ([], st\<lparr>error := Some (JString ''Please upload an image and provide a prompt.'')\<rparr>)
      | Some img \<Rightarrow>
          if prompt st = []
          then ([], st\<lparr>error := Some (JString ''Please upload an image and provide a prompt.'')\<rparr>)
          else (case editImageWithGemini gc img (prompt st) of
                  (sent, p) \<Rightarrow>
                    (sent,
                     handleSubmit_resume p
                       (st\<lparr>isLoading := True\<rparr>\<lparr>error := None\<rparr>\<lparr>editedImage := None\<rparr>))))"

section \<open>Image ingestion (\<^verbatim>\<open>App.tsx\<close>)\<close>

text \<open>
  The browser's \<^verbatim>\<open>File\<close>: its bytes, its \<^verbatim>\<open>type\<close> (the declared media type)
  and its \<^verbatim>\<open>name\<close>.
\<close>

datatype File = File (file_bytes: "8 word list") (file_type: string) (file_name: string)

text \<open>
  What a \<^verbatim>\<open>FileReader\<close> reports after \<^verbatim>\<open>readAsDataURL\<close>: \<^verbatim>\<open>onload\<close>, with
  \<^verbatim>\<open>reader.result\<close>, or \<^verbatim>\<open>onerror\<close>, with the error event.
\<close>

datatype FileReaderEvent = OnLoad string | OnError js_value

text \<open>
  \<^verbatim>\<open>fileToUploadedFile\<close>, with the reader as a parameter: the promise resolves in
  \<^verbatim>\<open>onload\<close> and rejects in \<^verbatim>\<open>onerror\<close>.
\<close>

definition fileToUploadedFile :: "(File \<Rightarrow> FileReaderEvent) \<Rightarrow> File \<Rightarrow> UploadedFile promise" where
  "fileToUploadedFile reader file =
     (case reader file of
        OnLoad result \<Rightarrow>
          Fulfilled \<lparr> base64 = result, mimeType = file_type file, name = file_name file \<rparr>
      | OnError err \<Rightarrow> Rejected err)"

text \<open>
  Modelled from the spec: the base64 alphabet of the encoding that \<^verbatim>\<open>readAsDataURL\<close>
  applies; the reader is the browser's and is not part of the source. The specification
  calls the data an encoded byte string and writes it \<^verbatim>\<open>data:image/jpeg;base64,AAAA\<close>;
  the encoding of that name is RFC 4648's: \<^verbatim>\<open>A\<close> to \<^verbatim>\<open>Z\<close>, \<^verbatim>\<open>a\<close> to
  \<^verbatim>\<open>z\<close>, \<^verbatim>\<open>0\<close> to \<^verbatim>\<open>9\<close>, \<^verbatim>\<open>+\<close> and \<^verbatim>\<open>/\<close> for the values 0 to 63.
\<close>

definition base64_digit :: "nat \<Rightarrow> char" where
  "base64_digit n =
     (if n < 26 then char_of (65 + n)
      else if n < 52 then char_of (71 + n)
      else if n < 62 then char_of (n - 4)
      else if n = 62 then CHR ''+''
      else CHR ''/'')"

text \<open>
  Modelled from the spec: the value of a base64 character, for the decoding that the
  round-trip property of the specification speaks of; no decoder is part of the source.
\<close>

definition base64_value :: "char \<Rightarrow> nat option" where
  "base64_value c =
     (let k = (of_char c :: nat) in
      if 65 \<le> k \<and> k \<le> 90 then Some (k - 65)
      else if 97 \<le> k \<and> k \<le> 122 then Some (k - 71)
      else if 48 \<le> k \<and> k \<le> 57 then Some (k + 4)
      else if c = CHR ''+'' then Some 62
      else if c = CHR ''/'' then Some 63
      else None)"

text \<open>
  Modelled from the spec: the base64 encoding of the file's bytes (RFC 4648, padded with
  \<^verbatim>\<open>=\<close>): three bytes become four characters of six bits each.
\<close>

fun base64_encode :: "8 word list \<Rightarrow> string" where
  "base64_encode [] = []"
| "base64_encode [a] =
     [base64_digit (unat a div 4),
      base64_digit (unat a mod 4 * 16),
      CHR ''='', CHR ''='']"
| "base64_encode [a, b] =
     [base64_digit (unat a div 4),
      base64_digit (unat a mod 4 * 16 + unat b div 16),
      base64_digit (unat b mod 16 * 4),
      CHR ''='']"
| "base64_encode (a # b # c # rest) =
     [base64_digit (unat a div 4),
      base64_digit (unat a mod 4 * 16 + unat b div 16),
      base64_digit (unat b mod 16 * 4 + unat c div 64),
      base64_digit (unat c mod 64)] @ base64_encode rest"

text \<open>
  Modelled from the spec: the decoding of the round-trip property, the inverse reading of
  RFC 4648: four characters give three bytes, a final group padded with one or two
  \<^verbatim>\<open>=\<close> gives two bytes or one, and anything else is not an encoding.
\<close>

fun base64_decode :: "string \<Rightarrow> 8 word list option" where
  "base64_decode [] = Some []"
| "base64_decode (c1 # c2 # c3 # c4 # rest) =
     (if rest = [] \<and> c3 = CHR ''='' \<and> c4 = CHR ''='' then
        (case (base64_value c1, base64_value c2) of
           (Some s1, Some s2) \<Rightarrow> Some [of_nat (s1 * 4 + s2 div 16)]
         | _ \<Rightarrow> None)
      else if rest = [] \<and> c4 = CHR ''='' then
        (case (base64_value c1, base64_value c2, base64_value c3) of
           (Some s1, Some s2, Some s3) \<Rightarrow>
             Some [of_nat (s1 * 4 + s2 div 16), of_nat (s2 mod 16 * 16 + s3 div 4)]
         | _ \<Rightarrow> None)
      else
        (case (base64_value c1, base64_value c2, base64_value c3, base64_value c4) of
           (Some s1, Some s2, Some s3, Some s4) \<Rightarrow>
             (case base64_decode rest of
                Some bs \<Rightarrow>
                  Some (of_nat (s1 * 4 + s2 div 16) # of_nat (s2 mod 16 * 16 + s3 div 4)
                        # of_nat (s3 mod 4 * 64 + s4) # bs)
              | None \<Rightarrow> None)
         | _ \<Rightarrow> None))"
| "base64_decode cs = None"

text \<open>
  Modelled from the spec: \<^verbatim>\<open>FileReader.readAsDataURL\<close>, the browser's, which the
  source calls and does not contain. The specification has it produce the self-describing
  string whose embedded prefix matches the media type: \<^verbatim>\<open>data:\<close>, the file's type,
  \<^verbatim>\<open>;base64,\<close> and the encoded bytes. The read of the model always succeeds.
\<close>

definition readAsDataURL :: "File \<Rightarrow> FileReaderEvent" where
  "readAsDataURL file =
     OnLoad (''data:'' @ file_type file @ '';base64,'' @ base64_encode (file_bytes file))"

text \<open>
  Modelled from the spec: stripping the embedded media-type prefix, in the specification's
  own terms: the data without the leading \<^verbatim>\<open>data:\<close>, media type and
  \<^verbatim>\<open>;base64,\<close>; nothing when the data does not start so. (The adapter's own
  stripping is \<open>base64Data\<close>.)
\<close>

definition stripMediaTypePrefix :: "UploadedFile \<Rightarrow> string option" where
  "stripMediaTypePrefix u =
     (if prefix (''data:'' @ mimeType u @ '';base64,'') (base64 u)
      then Some (drop (length (''data:'' @ mimeType u @ '';base64,'')) (base64 u))
      else None)"

section \<open>Facts about the helpers\<close>

lemma split_nonempty: "split s sep \<noteq> []"
  by (induction s) (auto split: list.splits)

lemma split_no_sep: "sep \<notin> set s \<Longrightarrow> split s sep = [s]"
  by (induction s) auto

lemma split_first: "sep \<notin> set pre \<Longrightarrow> split (pre @ sep # rest) sep = pre # split rest sep"
  by (induction pre) auto

lemma hd_split: "hd (split s sep) = takeWhile (\<lambda>c. c \<noteq> sep) s"
proof (induction s)
  case Nil
  then show ?case by simp
next
  case (Cons c cs)
  then show ?case
    by (cases "split cs sep") (auto simp: split_nonempty)
qed

lemma index_second: "ys \<noteq> [] \<Longrightarrow> index (x # ys) (Suc 0) = Some (hd ys)"
  by (cases ys) (simp_all add: index_def)

lemma takeWhile_until:
  "x \<notin> set mid \<Longrightarrow> takeWhile (\<lambda>c. c \<noteq> x) (mid @ x # post) = mid"
  by (induction mid) auto

lemma base64Data_no_comma:
  "CHR '','' \<notin> set (base64 img) \<Longrightarrow> base64Data img = None"
  by (simp add: base64Data_def split_no_sep index_def)

lemma base64Data_after_first_comma:
  assumes "base64 img = pre @ CHR '','' # rest" and "CHR '','' \<notin> set pre"
  shows "base64Data img = Some (takeWhile (\<lambda>c. c \<noteq> CHR '','') rest)"
  using assms by (simp add: base64Data_def split_first index_second split_nonempty hd_split)

lemma findImage_skip:
  "\<forall>q \<in> set pre. inlineData q = None \<Longrightarrow> findImage (pre @ rest) = findImage rest"
  by (induction pre) simp_all

lemma findImage_None_iff:
  "findImage ps = None \<longleftrightarrow> (\<forall>p \<in> set ps. inlineData p = None)"
  by (induction ps) (auto split: option.splits)

lemma responseParts_first:
  "candidates response = Some (Candidate (Some (Content (Some ps))) # others) \<Longrightarrow>
   responseParts response = ps"
  by (simp add: responseParts_def)

lemmas edit_defs =
  editImageWithGemini_def editImageWithGemini_try_def editImageWithGemini_catch_def

lemma editImageWithGemini_sent:
  "fst (editImageWithGemini gc img instr) = [request img instr]"
  by (simp add: editImageWithGemini_def editImageWithGemini_try_def split: promise.splits)

section \<open>Selecting the image of the response\<close>

text \<open>
  Claim C1. When the first candidate of the response has a part with \<^verbatim>\<open>inlineData\<close>,
  the adapter resolves to the string made of \<^verbatim>\<open>data:\<close>, the media type,
  \<^verbatim>\<open>;base64,\<close> and the data of the first such part \<open>p\<close> (an absent field
  printed as \<^verbatim>\<open>undefined\<close>). The parts \<open>pre\<close> before it (which have no
  \<^verbatim>\<open>inlineData\<close>, whatever their text), the parts \<open>post\<close> after it and the other
  candidates \<open>others\<close> are arbitrary and do not occur in the result.
\<close>

theorem first_image_part_selected:
  assumes "gc (request img instr) = Fulfilled response"
    and "candidates response =
           Some (Candidate (Some (Content (Some (pre @ p # post)))) # others)"
    and "\<forall>q \<in> set pre. inlineData q = None"
    and "inlineData p = Some b"
  shows "snd (editImageWithGemini gc img instr) =
           Fulfilled (''data:'' @ template (blob_mimeType b) @ '';base64,''
                      @ template (blob_data b))"
proof -
  have "responseParts response = pre @ p # post"
    using assms(2) by (rule responseParts_first)
  then have "findImage (responseParts response) = findImage (p # post)"
    using assms(3) by (simp add: findImage_skip)
  also have "\<dots> = Some (''data:'' @ template (blob_mimeType b) @ '';base64,''
                          @ template (blob_data b))"
    using assms(4) by (simp add: dataUrl_def)
  finally show ?thesis
    using assms(1) by (simp add: edit_defs)
qed

theorem first_image_part_selected_witness:
  "snd (editImageWithGemini
         (\<lambda>r. Fulfilled (GenerateContentResponse (Some
            [Candidate (Some (Content (Some
               [Part None (Some ''Here is your picture''),
                Part (Some (Blob (Some ''BBBB'') (Some ''image/png''))) None,
                Part (Some (Blob (Some ''CCCC'') (Some ''image/jpeg''))) None]))),
             Candidate (Some (Content (Some
               [Part (Some (Blob (Some ''DDDD'') (Some ''image/gif''))) None])))])))
         \<lparr>base64 = ''data:image/jpeg;base64,AAAA'', mimeType = ''image/jpeg'', name = ''cat.jpg''\<rparr>
         ''make it red'')
   = Fulfilled ''data:image/png;base64,BBBB''"
  using first_image_part_selected
    [of "\<lambda>r. Fulfilled (GenerateContentResponse (Some
            [Candidate (Some (Content (Some
               [Part None (Some ''Here is your picture''),
                Part (Some (Blob (Some ''BBBB'') (Some ''image/png''))) None,
                Part (Some (Blob (Some ''CCCC'') (Some ''image/jpeg''))) None]))),
             Candidate (Some (Content (Some
               [Part (Some (Blob (Some ''DDDD'') (Some ''image/gif''))) None])))]))"
        "\<lparr>base64 = ''data:image/jpeg;base64,AAAA'', mimeType = ''image/jpeg'', name = ''cat.jpg''\<rparr>"
        "''make it red''"
        _
        "[Part None (Some ''Here is your picture'')]"
        "Part (Some (Blob (Some ''BBBB'') (Some ''image/png''))) None"
        "[Part (Some (Blob (Some ''CCCC'') (Some ''image/jpeg''))) None]"
        "[Candidate (Some (Content (Some
               [Part (Some (Blob (Some ''DDDD'') (Some ''image/gif''))) None])))]"
        "Blob (Some ''BBBB'') (Some ''image/png'')"]
  by (simp add: dataUrl_def)

text \<open>
  Claim C2. The string the adapter resolves to is \<^verbatim>\<open>data:\<close>, the selected part's own
  media type \<open>m\<close>, \<^verbatim>\<open>;base64,\<close> and the selected part's data \<open>d\<close>; the media type of
  the uploaded file does not occur in it. The instance after it is the end-to-end
  scenario: a JPEG goes in, the response declares PNG, and the result is
  \<^verbatim>\<open>data:image/png;base64,BBBB\<close>.
\<close>

theorem result_uses_response_media_type:
  assumes "gc (request img instr) = Fulfilled response"
    and "responseParts response = pre @ Part (Some (Blob (Some d) (Some m))) t # post"
    and "\<forall>q \<in> set pre. inlineData q = None"
  shows "snd (editImageWithGemini gc img instr) =
           Fulfilled (''data:'' @ m @ '';base64,'' @ d)"
proof -
  have "findImage (responseParts response) = Some (dataUrl (Blob (Some d) (Some m)))"
    using assms(2,3) by (simp add: findImage_skip)
  then show ?thesis
    using assms(1) by (simp add: edit_defs dataUrl_def)
qed

theorem result_uses_response_media_type_witness:
  "snd (editImageWithGemini
         (\<lambda>r. Fulfilled (GenerateContentResponse (Some
            [Candidate (Some (Content (Some
               [Part (Some (Blob (Some ''BBBB'') (Some ''image/png''))) None])))])))
         \<lparr>base64 = ''data:image/jpeg;base64,AAAA'', mimeType = ''image/jpeg'', name = ''cat.jpg''\<rparr>
         ''make it red'')
   = Fulfilled ''data:image/png;base64,BBBB''"
  using result_uses_response_media_type
    [of "\<lambda>r. Fulfilled (GenerateContentResponse (Some
            [Candidate (Some (Content (Some
               [Part (Some (Blob (Some ''BBBB'') (Some ''image/png''))) None])))]))"
        "\<lparr>base64 = ''data:image/jpeg;base64,AAAA'', mimeType = ''image/jpeg'', name = ''cat.jpg''\<rparr>"
        "''make it red''" _ "[]" "''BBBB''" "''image/png''" None "[]"]
  by (simp add: responseParts_def)

section \<open>The request\<close>

text \<open>
  For every uploaded file and every instruction the adapter sends exactly one request. Its
  content is two parts in this order: the inline part, tagged with the uploaded file's
  media type and holding what \<^verbatim>\<open>split(',')[1]\<close> gives, then the text part holding
  the instruction; and the only response modality it asks for is \<open>IMAGE\<close>.
\<close>

lemma request_every_input:
  "fst (editImageWithGemini gc img instr) =
     [\<lparr> model = ''gemini-2.5-flash-image'',
        contents = Content (Some
          [ Part (Some (Blob (base64Data img) (Some (mimeType img)))) None,
            Part None (Some instr) ]),
        config = \<lparr> responseModalities = [IMAGE] \<rparr> \<rparr>]"
  by (simp add: editImageWithGemini_sent request_def)

text \<open>
  When the data is a prefix, one comma and the raw content \<open>raw\<close>, with no comma in
  the prefix and none in \<open>raw\<close>, the inline part holds \<open>raw\<close>.
\<close>

lemma request_one_comma:
  assumes "base64 img = pre @ CHR '','' # raw"
    and "CHR '','' \<notin> set pre" and "CHR '','' \<notin> set raw"
  shows "fst (editImageWithGemini gc img instr) =
           [\<lparr> model = ''gemini-2.5-flash-image'',
              contents = Content (Some
                [ Part (Some (Blob (Some raw) (Some (mimeType img)))) None,
                  Part None (Some instr) ]),
              config = \<lparr> responseModalities = [IMAGE] \<rparr> \<rparr>]"
proof -
  have "base64Data img = Some raw"
    using base64Data_after_first_comma [OF assms(1,2)] assms(3)
    by (auto simp: takeWhile_eq_all_conv)
  then show ?thesis
    by (simp add: request_every_input)
qed


text \<open>
  Claim C9. The request carries \<open>base64Data img\<close> as the content of its inline part, and
  \<open>base64Data img\<close> is the piece of the data between its first and its second comma:
  absent when the data has no comma; \<open>mid\<close> when the data is \<open>pre\<close>, a comma, \<open>mid\<close>, a
  comma and anything \<open>post\<close> (which is dropped); and, when \<open>rest\<close> is everything after
  the first comma, it is all of \<open>rest\<close> exactly when \<open>rest\<close> has no further comma.
\<close>

theorem stripping_between_commas:
  "fst (editImageWithGemini gc img instr) = [request img instr]
   \<and> contents (request img instr) =
       Content (Some [Part (Some (Blob (base64Data img) (Some (mimeType img)))) None,
                      Part None (Some instr)])
   \<and> (CHR '','' \<notin> set (base64 img) \<longrightarrow> base64Data img = None)
   \<and> (base64 img = pre @ CHR '','' # mid @ CHR '','' # post
        \<and> CHR '','' \<notin> set pre \<and> CHR '','' \<notin> set mid \<longrightarrow>
        base64Data img = Some mid)
   \<and> (base64 img = pre @ CHR '','' # rest \<and> CHR '','' \<notin> set pre \<longrightarrow>
        base64Data img = Some (takeWhile (\<lambda>c. c \<noteq> CHR '','') rest)
        \<and> (base64Data img = Some rest \<longleftrightarrow> CHR '','' \<notin> set rest))"
proof -
  have req: "contents (request img instr) =
       Content (Some [Part (Some (Blob (base64Data img) (Some (mimeType img)))) None,
                      Part None (Some instr)])"
    by (simp add: request_def)
  have two: "base64Data img = Some mid"
    if "base64 img = pre @ CHR '','' # mid @ CHR '','' # post"
      and "CHR '','' \<notin> set pre" and "CHR '','' \<notin> set mid"
    using base64Data_after_first_comma [OF that(1,2)] that(3) by (simp add: takeWhile_until)
  have one: "base64Data img = Some (takeWhile (\<lambda>c. c \<noteq> CHR '','') rest)
         \<and> (base64Data img = Some rest \<longleftrightarrow> CHR '','' \<notin> set rest)"
    if "base64 img = pre @ CHR '','' # rest" and "CHR '','' \<notin> set pre"
    using base64Data_after_first_comma [OF that] by (auto simp: takeWhile_eq_all_conv)
  show ?thesis
    using editImageWithGemini_sent [of gc img instr] req base64Data_no_comma [of img] two one
    by blast
qed

theorem stripping_between_commas_witness:
  "base64Data \<lparr>base64 = ''AAAA'', mimeType = ''image/png'', name = ''a.png''\<rparr> = None
   \<and> base64Data \<lparr>base64 = ''data:image/png;base64,AAAA,BBBB'', mimeType = ''image/png'', name = ''a.png''\<rparr>
       = Some ''AAAA''
   \<and> base64Data \<lparr>base64 = ''data:image/png;base64,AAAA'', mimeType = ''image/png'', name = ''a.png''\<rparr>
       = Some ''AAAA''"
  using
    stripping_between_commas
      [of "\<lambda>r. Pending" "\<lparr>base64 = ''AAAA'', mimeType = ''image/png'', name = ''a.png''\<rparr>" "''x''"
          "[]" "[]" "[]" "[]"]
    stripping_between_commas
      [of "\<lambda>r. Pending"
          "\<lparr>base64 = ''data:image/png;base64,AAAA,BBBB'', mimeType = ''image/png'', name = ''a.png''\<rparr>"
          "''x''" "''data:image/png;base64''" "''AAAA''" "''BBBB''" "''AAAA,BBBB''"]
    stripping_between_commas
      [of "\<lambda>r. Pending"
          "\<lparr>base64 = ''data:image/png;base64,AAAA'', mimeType = ''image/png'', name = ''a.png''\<rparr>"
          "''x''" "''data:image/png;base64''" "[]" "[]" "''AAAA''"]
  by simp

section \<open>Failures of the adapter\<close>

text \<open>
  Claim C5. Every way the adapter fails ends in a rejection with one string. A rejected
  remote call (transport failure, or a response the client library could not parse) whose
  cause is an \<^verbatim>\<open>Error\<close> with message \<open>m\<close> gives \<^verbatim>\<open>Failed to generate image: \<close>
  followed by \<open>m\<close>; a cause \<open>v\<close> that is not an \<^verbatim>\<open>Error\<close> gives the fixed generic
  message; a response without an image gives the prefix followed by the no-image message;
  and whatever the adapter rejects with is a string.
\<close>

theorem failures_become_strings:
  "(gc (request img instr) = Rejected (JError m) \<longrightarrow>
      snd (editImageWithGemini gc img instr) =
        Rejected (JString (''Failed to generate image: '' @ m)))
   \<and> (gc (request img instr) = Rejected v \<and> \<not> instanceof_Error v \<longrightarrow>
      snd (editImageWithGemini gc img instr) =
        Rejected (JString ''An unknown error occurred while generating the image.''))
   \<and> (gc (request img instr) = Fulfilled response
        \<and> findImage (responseParts response) = None \<longrightarrow>
      snd (editImageWithGemini gc img instr) =
        Rejected (JString (''Failed to generate image: '' @
                           ''No image was generated in the API response.'')))
   \<and> (\<forall>e. snd (editImageWithGemini gc img instr) = Rejected e \<longrightarrow> (\<exists>s. e = JString s))"
  by (auto simp: edit_defs split: promise.splits option.splits)

theorem failures_become_strings_witness:
  "snd (editImageWithGemini (\<lambda>r. Rejected (JError ''connect ECONNREFUSED''))
         \<lparr>base64 = ''data:image/jpeg;base64,AAAA'', mimeType = ''image/jpeg'', name = ''cat.jpg''\<rparr>
         ''make it red'')
     = Rejected (JString ''Failed to generate image: connect ECONNREFUSED'')
   \<and> snd (editImageWithGemini (\<lambda>r. Rejected (JObject [(''message'', JString ''quota'')]))
         \<lparr>base64 = ''data:image/jpeg;base64,AAAA'', mimeType = ''image/jpeg'', name = ''cat.jpg''\<rparr>
         ''make it red'')
     = Rejected (JString ''An unknown error occurred while generating the image.'')
   \<and> snd (editImageWithGemini (\<lambda>r. Fulfilled (GenerateContentResponse None))
         \<lparr>base64 = ''data:image/jpeg;base64,AAAA'', mimeType = ''image/jpeg'', name = ''cat.jpg''\<rparr>
         ''make it red'')
     = Rejected (JString ''Failed to generate image: No image was generated in the API response.'')"
  using
    failures_become_strings
      [of "\<lambda>r. Rejected (JError ''connect ECONNREFUSED'')"
          "\<lparr>base64 = ''data:image/jpeg;base64,AAAA'', mimeType = ''image/jpeg'', name = ''cat.jpg''\<rparr>"
          "''make it red''" "''connect ECONNREFUSED''" JNull "GenerateContentResponse None"]
    failures_become_strings
      [of "\<lambda>r. Rejected (JObject [(''message'', JString ''quota'')])"
          "\<lparr>base64 = ''data:image/jpeg;base64,AAAA'', mimeType = ''image/jpeg'', name = ''cat.jpg''\<rparr>"
          "''make it red''" "[]" "JObject [(''message'', JString ''quota'')]"
          "GenerateContentResponse None"]
    failures_become_strings
      [of "\<lambda>r. Fulfilled (GenerateContentResponse None)"
          "\<lparr>base64 = ''data:image/jpeg;base64,AAAA'', mimeType = ''image/jpeg'', name = ''cat.jpg''\<rparr>"
          "''make it red''" "[]" JNull "GenerateContentResponse None"]
  by (simp add: responseParts_def)

text \<open>
  Claim C6. When the remote call answers and no part of the first candidate has
  \<^verbatim>\<open>inlineData\<close> (\<open>responseParts\<close> is empty for a response without candidates, with
  an empty candidate list, or whose first candidate has no content or no parts), the
  adapter rejects, and the message is the prefix followed by
  \<^verbatim>\<open>No image was generated in the API response.\<close>
\<close>

theorem no_image_rejects:
  assumes "gc (request img instr) = Fulfilled response"
    and "\<forall>p \<in> set (responseParts response). inlineData p = None"
  shows "snd (editImageWithGemini gc img instr) =
           Rejected (JString (''Failed to generate image: '' @
                              ''No image was generated in the API response.''))"
proof -
  have "findImage (responseParts response) = None"
    using assms(2) by (simp add: findImage_None_iff)
  then show ?thesis
    using assms(1) by (simp add: edit_defs)
qed

theorem no_image_rejects_witness:
  "snd (editImageWithGemini (\<lambda>r. Fulfilled (GenerateContentResponse (Some [])))
         \<lparr>base64 = ''data:image/jpeg;base64,AAAA'', mimeType = ''image/jpeg'', name = ''cat.jpg''\<rparr>
         ''make it red'')
     = Rejected (JString ''Failed to generate image: No image was generated in the API response.'')
   \<and> snd (editImageWithGemini
         (\<lambda>r. Fulfilled (GenerateContentResponse (Some [Candidate (Some (Content None))])))
         \<lparr>base64 = ''data:image/jpeg;base64,AAAA'', mimeType = ''image/jpeg'', name = ''cat.jpg''\<rparr>
         ''make it red'')
     = Rejected (JString ''Failed to generate image: No image was generated in the API response.'')
   \<and> snd (editImageWithGemini
         (\<lambda>r. Fulfilled (GenerateContentResponse (Some
            [Candidate (Some (Content (Some [Part None (Some ''I cannot edit this.'')]))),
             Candidate (Some (Content (Some
               [Part (Some (Blob (Some ''DDDD'') (Some ''image/gif''))) None])))])))
         \<lparr>base64 = ''data:image/jpeg;base64,AAAA'', mimeType = ''image/jpeg'', name = ''cat.jpg''\<rparr>
         ''make it red'')
     = Rejected (JString ''Failed to generate image: No image was generated in the API response.'')"
  using
    no_image_rejects
      [of "\<lambda>r. Fulfilled (GenerateContentResponse (Some []))"
          "\<lparr>base64 = ''data:image/jpeg;base64,AAAA'', mimeType = ''image/jpeg'', name = ''cat.jpg''\<rparr>"
          "''make it red''" "GenerateContentResponse (Some [])"]
    no_image_rejects
      [of "\<lambda>r. Fulfilled (GenerateContentResponse (Some [Candidate (Some (Content None))]))"
          "\<lparr>base64 = ''data:image/jpeg;base64,AAAA'', mimeType = ''image/jpeg'', name = ''cat.jpg''\<rparr>"
          "''make it red''" "GenerateContentResponse (Some [Candidate (Some (Content None))])"]
    no_image_rejects
      [of "\<lambda>r. Fulfilled (GenerateContentResponse (Some
            [Candidate (Some (Content (Some [Part None (Some ''I cannot edit this.'')]))),
             Candidate (Some (Content (Some
               [Part (Some (Blob (Some ''DDDD'') (Some ''image/gif''))) None])))]))"
          "\<lparr>base64 = ''data:image/jpeg;base64,AAAA'', mimeType = ''image/jpeg'', name = ''cat.jpg''\<rparr>"
          "''make it red''"
          "GenerateContentResponse (Some
            [Candidate (Some (Content (Some [Part None (Some ''I cannot edit this.'')]))),
             Candidate (Some (Content (Some
               [Part (Some (Blob (Some ''DDDD'') (Some ''image/gif''))) None])))])"]
  by (simp add: responseParts_def)

text \<open>
  Claim C10. What the adapter rejects with is a string, never an \<^verbatim>\<open>Error\<close> object:
  one that starts with \<^verbatim>\<open>Failed to generate image: \<close> or the fixed unknown-error
  message. So the value \<^verbatim>\<open>handleSubmit\<close> stores in the \<open>error\<close> cell under the
  cast \<^verbatim>\<open>e as string\<close> is a string.
\<close>

theorem rejection_is_string:
  "(snd (editImageWithGemini gc img instr) = Rejected e \<longrightarrow>
      (\<exists>s. e = JString s \<and>
           (prefix ''Failed to generate image: '' s
            \<or> s = ''An unknown error occurred while generating the image.'')))
   \<and> (\<forall>v. error (snd (handleSubmit gc st)) = Some v \<longrightarrow> (\<exists>s. v = JString s))"
  by (auto simp: edit_defs handleSubmit_def handleSubmit_resume_def
           split: promise.splits option.splits prod.splits)

theorem rejection_is_string_witness:
  "snd (editImageWithGemini (\<lambda>r. Rejected (JError ''connect ECONNREFUSED''))
         \<lparr>base64 = ''data:image/jpeg;base64,AAAA'', mimeType = ''image/jpeg'', name = ''cat.jpg''\<rparr>
         ''make it red'')
     = Rejected (JString ''Failed to generate image: connect ECONNREFUSED'')
   \<and> prefix ''Failed to generate image: '' ''Failed to generate image: connect ECONNREFUSED''
   \<and> error (snd (handleSubmit (\<lambda>r. Rejected (JError ''connect ECONNREFUSED''))
         \<lparr>originalImage = Some \<lparr>base64 = ''data:image/jpeg;base64,AAAA'', mimeType = ''image/jpeg'',
                                 name = ''cat.jpg''\<rparr>,
          editedImage = None, prompt = ''make it red'', isLoading = False, error = None\<rparr>))
     = Some (JString ''Failed to generate image: connect ECONNREFUSED'')"
  using rejection_is_string
      [of "\<lambda>r. Rejected (JError ''connect ECONNREFUSED'')"
          "\<lparr>base64 = ''data:image/jpeg;base64,AAAA'', mimeType = ''image/jpeg'', name = ''cat.jpg''\<rparr>"
          "''make it red''" "JString ''Failed to generate image: connect ECONNREFUSED''"
          "\<lparr>originalImage = Some \<lparr>base64 = ''data:image/jpeg;base64,AAAA'', mimeType = ''image/jpeg'',
                                 name = ''cat.jpg''\<rparr>,
            editedImage = None, prompt = ''make it red'', isLoading = False, error = None\<rparr>"]
  by (simp add: edit_defs handleSubmit_def handleSubmit_resume_def)

section \<open>Submitting\<close>

text \<open>
  Claim C4. When the stored image is absent or the instruction is empty,
  \<^verbatim>\<open>handleSubmit\<close> sends no request, whatever the remote service would answer (it
  returns before any \<^verbatim>\<open>await\<close>), and the state it leaves is the state it found with
  the \<open>error\<close> cell set to the validation message: the loading flag and the edited image
  are as before.
\<close>

theorem submit_validation:
  assumes "originalImage st = None \<or> prompt st = []"
  shows "handleSubmit gc st =
           ([], st\<lparr>error := Some (JString ''Please upload an image and provide a prompt.'')\<rparr>)
         \<and> isLoading (snd (handleSubmit gc st)) = isLoading st
         \<and> editedImage (snd (handleSubmit gc st)) = editedImage st"
  using assms by (auto simp: handleSubmit_def split: option.splits)

theorem submit_validation_witness:
  "handleSubmit (\<lambda>r. Pending)
     \<lparr>originalImage = None, editedImage = Some ''data:image/png;base64,BBBB'',
      prompt = ''make it red'', isLoading = False, error = None\<rparr>
   = ([], \<lparr>originalImage = None, editedImage = Some ''data:image/png;base64,BBBB'',
           prompt = ''make it red'', isLoading = False,
           error = Some (JString ''Please upload an image and provide a prompt.'')\<rparr>)
   \<and>
   handleSubmit (\<lambda>r. Pending)
     \<lparr>originalImage = Some \<lparr>base64 = ''data:image/jpeg;base64,AAAA'', mimeType = ''image/jpeg'',
                             name = ''cat.jpg''\<rparr>,
      editedImage = None, prompt = [], isLoading = True, error = None\<rparr>
   = ([], \<lparr>originalImage = Some \<lparr>base64 = ''data:image/jpeg;base64,AAAA'', mimeType = ''image/jpeg'',
                                   name = ''cat.jpg''\<rparr>,
           editedImage = None, prompt = [], isLoading = True,
           error = Some (JString ''Please upload an image and provide a prompt.'')\<rparr>)"
  using
    submit_validation
      [of "\<lparr>originalImage = None, editedImage = Some ''data:image/png;base64,BBBB'',
            prompt = ''make it red'', isLoading = False, error = None\<rparr>" "\<lambda>r. Pending"]
    submit_validation
      [of "\<lparr>originalImage = Some \<lparr>base64 = ''data:image/jpeg;base64,AAAA'', mimeType = ''image/jpeg'',
                                   name = ''cat.jpg''\<rparr>,
            editedImage = None, prompt = [], isLoading = True, error = None\<rparr>" "\<lambda>r. Pending"]
  by simp

text \<open>
  Claim C8. When \<^verbatim>\<open>handleSubmit\<close> calls the adapter and the adapter rejects with
  \<open>e\<close>, the state it leaves is the state it found with the loading flag false, the edited
  image null and the \<open>error\<close> cell holding \<open>e\<close>; the stored image and the instruction
  are untouched.
\<close>

theorem failed_submit_state:
  assumes "originalImage st = Some img"
    and "prompt st \<noteq> []"
    and "snd (editImageWithGemini gc img (prompt st)) = Rejected e"
  shows "snd (handleSubmit gc st) = st\<lparr>isLoading := False, editedImage := None, error := Some e\<rparr>
         \<and> originalImage (snd (handleSubmit gc st)) = Some img"
  using assms
  by (cases "editImageWithGemini gc img (prompt st)")
     (simp add: handleSubmit_def handleSubmit_resume_def)

theorem failed_submit_state_witness:
  "snd (handleSubmit (\<lambda>r. Rejected (JError ''connect ECONNREFUSED''))
     \<lparr>originalImage = Some \<lparr>base64 = ''data:image/jpeg;base64,AAAA'', mimeType = ''image/jpeg'',
                             name = ''cat.jpg''\<rparr>,
      editedImage = Some ''data:image/png;base64,BBBB'', prompt = ''make it red'',
      isLoading = False, error = None\<rparr>)
   = \<lparr>originalImage = Some \<lparr>base64 = ''data:image/jpeg;base64,AAAA'', mimeType = ''image/jpeg'',
                             name = ''cat.jpg''\<rparr>,
      editedImage = None, prompt = ''make it red'', isLoading = False,
      error = Some (JString ''Failed to generate image: connect ECONNREFUSED'')\<rparr>"
  using failed_submit_state
    [of "\<lparr>originalImage = Some \<lparr>base64 = ''data:image/jpeg;base64,AAAA'', mimeType = ''image/jpeg'',
                             name = ''cat.jpg''\<rparr>,
      editedImage = Some ''data:image/png;base64,BBBB'', prompt = ''make it red'',
      isLoading = False, error = None\<rparr>"
        "\<lparr>base64 = ''data:image/jpeg;base64,AAAA'', mimeType = ''image/jpeg'', name = ''cat.jpg''\<rparr>"
        "\<lambda>r. Rejected (JError ''connect ECONNREFUSED'')"
        "JString ''Failed to generate image: connect ECONNREFUSED''"]
  by (simp add: edit_defs)

section \<open>Image ingestion round trip\<close>

lemma base64_value_digit: "n < 64 \<Longrightarrow> base64_value (base64_digit n) = Some n"
  by (auto simp: base64_value_def base64_digit_def Let_def)

lemma base64_value_pad: "base64_value CHR ''='' = None"
  by (simp add: base64_value_def)

lemma base64_digit_not_pad: "n < 64 \<Longrightarrow> base64_digit n \<noteq> CHR ''=''"
  using base64_value_digit [of n] base64_value_pad by auto

lemma base64_value_comma: "base64_value CHR '','' = None"
  by (simp add: base64_value_def)

lemma base64_digit_not_comma: "n < 64 \<Longrightarrow> base64_digit n \<noteq> CHR '',''"
  using base64_value_digit [of n] base64_value_comma by auto

lemma unat_byte: "unat (a :: 8 word) < 256"
  using unsigned_less [of a] by simp

lemma byte_of_unat: "of_nat (unat (a :: 8 word)) = a"
  by simp

text \<open>The six-bit groups of three bytes, and the bytes back from the groups.\<close>

lemma sextets:
  fixes x y z :: nat
  assumes "x < 256" "y < 256" "z < 256"
  shows "x div 4 * 4 + (x mod 4 * 16 + y div 16) div 16 = x"
    and "(x mod 4 * 16 + y div 16) mod 16 * 16 + (y mod 16 * 4 + z div 64) div 4 = y"
    and "(y mod 16 * 4 + z div 64) mod 4 * 64 + z mod 64 = z"
    and "x div 4 < 64" "x mod 4 * 16 + y div 16 < 64" "y mod 16 * 4 + z div 64 < 64" "z mod 64 < 64"
proof -
  have hi: "y div 16 < 16" "z div 64 < 4" "x div 4 < 64"
    using assms by (simp_all add: less_mult_imp_div_less)
  have lo: "x mod 4 < 4" "y mod 16 < 16" "z mod 64 < 64"
    by simp_all
  have a: "(x mod 4 * 16 + y div 16) div 16 = x mod 4" "(x mod 4 * 16 + y div 16) mod 16 = y div 16"
    using hi(1) by simp_all
  have b: "(y mod 16 * 4 + z div 64) div 4 = y mod 16" "(y mod 16 * 4 + z div 64) mod 4 = z div 64"
    using hi(2) by simp_all
  show "x div 4 * 4 + (x mod 4 * 16 + y div 16) div 16 = x"
    by (simp only: a) simp
  show "(x mod 4 * 16 + y div 16) mod 16 * 16 + (y mod 16 * 4 + z div 64) div 4 = y"
    by (simp only: a b) simp
  show "(y mod 16 * 4 + z div 64) mod 4 * 64 + z mod 64 = z"
    by (simp only: b) simp
  show "x div 4 < 64" by (rule hi(3))
  show "x mod 4 * 16 + y div 16 < 64" using lo(1) hi(1) by linarith
  show "y mod 16 * 4 + z div 64 < 64" using lo(2) hi(2) by linarith
  show "z mod 64 < 64" by (rule lo(3))
qed

lemma decode_group:
  fixes a b c :: "8 word"
  assumes "base64_decode cs = Some bs"
  shows "base64_decode
           (base64_digit (unat a div 4) #
            base64_digit (unat a mod 4 * 16 + unat b div 16) #
            base64_digit (unat b mod 16 * 4 + unat c div 64) #
            base64_digit (unat c mod 64) # cs) = Some (a # b # c # bs)"
proof -
  note s = sextets [OF unat_byte [of a] unat_byte [of b] unat_byte [of c]]
  have v: "base64_value (base64_digit (unat a div 4)) = Some (unat a div 4)"
    "base64_value (base64_digit (unat a mod 4 * 16 + unat b div 16))
       = Some (unat a mod 4 * 16 + unat b div 16)"
    "base64_value (base64_digit (unat b mod 16 * 4 + unat c div 64))
       = Some (unat b mod 16 * 4 + unat c div 64)"
    "base64_value (base64_digit (unat c mod 64)) = Some (unat c mod 64)"
    using s(4-7) by (simp_all only: base64_value_digit)
  have p: "(base64_digit (unat c mod 64) = CHR ''='') = False"
    using base64_digit_not_pad [OF s(7)] by simp
  have w: "of_nat (unat a div 4 * 4 + (unat a mod 4 * 16 + unat b div 16) div 16) = a"
    "of_nat ((unat a mod 4 * 16 + unat b div 16) mod 16 * 16
             + (unat b mod 16 * 4 + unat c div 64) div 4) = b"
    "of_nat ((unat b mod 16 * 4 + unat c div 64) mod 4 * 64 + unat c mod 64) = c"
    using s(1-3) by (simp_all only: byte_of_unat)
  show ?thesis
    by (simp only: base64_decode.simps v w p assms option.case prod.case simp_thms if_False)
qed

lemma decode_one:
  fixes a :: "8 word"
  shows "base64_decode
           [base64_digit (unat a div 4), base64_digit (unat a mod 4 * 16), CHR ''='', CHR ''='']
         = Some [a]"
proof -
  have z: "unat (0 :: 8 word) = 0" by simp
  note s = sextets [OF unat_byte [of a] unat_byte [of 0] unat_byte [of 0], unfolded z, simplified]
  have v: "base64_value (base64_digit (unat a div 4)) = Some (unat a div 4)"
    "base64_value (base64_digit (unat a mod 4 * 16)) = Some (unat a mod 4 * 16)"
    using s by (simp_all add: base64_value_digit)
  have "unat a div 4 * 4 + (unat a mod 4 * 16) div 16 = unat a"
    by simp
  then have w: "of_nat (unat a div 4 * 4 + (unat a mod 4 * 16) div 16) = a"
    by (simp only: byte_of_unat)
  show ?thesis
    by (simp only: base64_decode.simps v w option.case prod.case simp_thms if_True)
qed

lemma decode_two:
  fixes a b :: "8 word"
  shows "base64_decode
           [base64_digit (unat a div 4), base64_digit (unat a mod 4 * 16 + unat b div 16),
            base64_digit (unat b mod 16 * 4), CHR ''='']
         = Some [a, b]"
proof -
  have z: "unat (0 :: 8 word) = 0" by simp
  note s = sextets [OF unat_byte [of a] unat_byte [of b] unat_byte [of 0], unfolded z]
  have v: "base64_value (base64_digit (unat a div 4)) = Some (unat a div 4)"
    "base64_value (base64_digit (unat a mod 4 * 16 + unat b div 16))
       = Some (unat a mod 4 * 16 + unat b div 16)"
    "base64_value (base64_digit (unat b mod 16 * 4)) = Some (unat b mod 16 * 4)"
    using s(4-6) by (simp_all add: base64_value_digit)
  have p: "(base64_digit (unat b mod 16 * 4) = CHR ''='') = False"
    using s(6) base64_digit_not_pad [of "unat b mod 16 * 4"] by simp
  have w: "of_nat (unat a div 4 * 4 + (unat a mod 4 * 16 + unat b div 16) div 16) = a"
    "of_nat ((unat a mod 4 * 16 + unat b div 16) mod 16 * 16 + (unat b mod 16 * 4) div 4) = b"
    using s(1,2) by (simp_all only: byte_of_unat add_0_right div_0)
  show ?thesis
    by (simp only: base64_decode.simps v w p option.case prod.case simp_thms if_True if_False)
qed

lemma base64_roundtrip: "base64_decode (base64_encode bs) = Some bs"
proof (induction bs rule: base64_encode.induct)
  case 1
  show ?case by simp
next
  case (2 a)
  show ?case by (simp only: base64_encode.simps decode_one)
next
  case (3 a b)
  show ?case by (simp only: base64_encode.simps decode_two)
next
  case (4 a b c rest)
  then show ?case by (simp only: base64_encode.simps append_Cons append_Nil decode_group)
qed

lemma base64_encode_no_comma: "CHR '','' \<notin> set (base64_encode bs)"
proof (induction bs rule: base64_encode.induct)
  case 1
  show ?case by simp
next
  case (2 a)
  note s = sextets [OF unat_byte [of a] unat_byte [of 0] unat_byte [of 0]]
  show ?case using s(4,5) by (simp add: base64_digit_not_comma [symmetric])
next
  case (3 a b)
  note s = sextets [OF unat_byte [of a] unat_byte [of b] unat_byte [of 0]]
  show ?case using s(4-6) by (simp add: base64_digit_not_comma [symmetric])
next
  case (4 a b c rest)
  note s = sextets [OF unat_byte [of a] unat_byte [of b] unat_byte [of c]]
  show ?case using s(4-7) 4 by (simp add: base64_digit_not_comma [symmetric])
qed

text \<open>
  Claim C7. For every file (any bytes \<open>bs\<close>, any declared media type \<open>mt\<close>), ingestion
  with the reader of the specification succeeds; the media type of the uploaded file it
  makes is \<open>mt\<close>; and its data, with the embedded media-type prefix stripped, decodes to
  exactly \<open>bs\<close>. When \<open>mt\<close> has no comma, what the adapter's own stripping passes on
  decodes to \<open>bs\<close> as well.
\<close>

theorem ingestion_roundtrip:
  "(case fileToUploadedFile readAsDataURL (File bs mt nm) of
      Fulfilled u \<Rightarrow>
        mimeType u = mt
        \<and> Option.bind (stripMediaTypePrefix u) base64_decode = Some bs
        \<and> (CHR '','' \<notin> set mt \<longrightarrow> Option.bind (base64Data u) base64_decode = Some bs)
    | Rejected err \<Rightarrow> False
    | Pending \<Rightarrow> False)"
proof -
  let ?u = "\<lparr> base64 = ''data:'' @ mt @ '';base64,'' @ base64_encode bs,
               mimeType = mt, name = nm \<rparr>"
  have made: "fileToUploadedFile readAsDataURL (File bs mt nm) = Fulfilled ?u"
    by (simp add: fileToUploadedFile_def readAsDataURL_def)
  have spec: "stripMediaTypePrefix ?u = Some (base64_encode bs)"
    by (simp add: stripMediaTypePrefix_def)
  have code: "base64Data ?u = Some (base64_encode bs)" if "CHR '','' \<notin> set mt"
  proof -
    have "base64 ?u = (''data:'' @ mt @ '';base64'') @ CHR '','' # base64_encode bs"
      by simp
    moreover have "CHR '','' \<notin> set (''data:'' @ mt @ '';base64'')"
      using that by simp
    ultimately have "base64Data ?u =
        Some (takeWhile (\<lambda>c. c \<noteq> CHR '','') (base64_encode bs))"
      by (rule base64Data_after_first_comma)
    moreover have "takeWhile (\<lambda>c. c \<noteq> CHR '','') (base64_encode bs) = base64_encode bs"
      using base64_encode_no_comma [of bs] by (auto simp: takeWhile_eq_all_conv)
    ultimately show ?thesis by simp
  qed
  show ?thesis
    using spec code by (simp add: made base64_roundtrip)
qed

theorem ingestion_roundtrip_witness:
  "fileToUploadedFile readAsDataURL (File [77, 97, 110] ''image/png'' ''man.png'')
     = Fulfilled \<lparr>base64 = ''data:image/png;base64,TWFu'', mimeType = ''image/png'', name = ''man.png''\<rparr>
   \<and> base64Data \<lparr>base64 = ''data:image/png;base64,TWFu'', mimeType = ''image/png'', name = ''man.png''\<rparr>
     = Some ''TWFu''
   \<and> base64_decode ''TWFu'' = Some [77, 97, 110]"
proof -
  have made: "fileToUploadedFile readAsDataURL (File [77, 97, 110] ''image/png'' ''man.png'')
     = Fulfilled \<lparr>base64 = ''data:image/png;base64,TWFu'', mimeType = ''image/png'', name = ''man.png''\<rparr>"
    by (simp add: fileToUploadedFile_def readAsDataURL_def base64_digit_def char_of_def bit_iff_odd)
  have strip: "base64Data \<lparr>base64 = ''data:image/png;base64,TWFu'', mimeType = ''image/png'', name = ''man.png''\<rparr>
     = Some ''TWFu''"
    by (simp add: base64Data_def index_def)
  show ?thesis
    using ingestion_roundtrip [where bs = "[77, 97, 110]" and mt = "''image/png''" and nm = "''man.png''"]
    by (simp add: made strip)
qed

end
